theory Spec2Isabelle
  imports Main "HOL-Library.Word"
begin

unbundle bit_operations_syntax

section \<open>Strings and bytes of the runtime\<close>

text \<open>
  A JavaScript string is a sequence of UTF-16 code units, and \<open>length\<close> and \<open>slice\<close> count
  code units. A \<open>Uint8Array\<close> is a list of bytes. String literals of the source are written
  \<open>js ''...''\<close>.
\<close>

type_synonym byte = "8 word"
type_synonym jsstring = "16 word list"

definition js :: "string \<Rightarrow> jsstring" where
  "js s = map of_char s"

text \<open>
  \<open>new TextEncoder().encode(s)\<close>: the UTF-8 bytes of \<open>s\<close>. A surrogate pair is one code
  point of four bytes, an unpaired surrogate is encoded as U+FFFD.
\<close>

definition is_lead_surrogate :: "16 word \<Rightarrow> bool" where
  "is_lead_surrogate c = (0xD800 \<le> c \<and> c \<le> 0xDBFF)"

definition is_trail_surrogate :: "16 word \<Rightarrow> bool" where
  "is_trail_surrogate c = (0xDC00 \<le> c \<and> c \<le> 0xDFFF)"

definition scalar_of_unit :: "16 word \<Rightarrow> nat" where
  "scalar_of_unit c = (if is_lead_surrogate c \<or> is_trail_surrogate c then 0xFFFD else unat c)"

fun code_points :: "jsstring \<Rightarrow> nat list" where
  "code_points [] = []"
| "code_points [c] = [scalar_of_unit c]"
| "code_points (c # d # cs) =
     (if is_lead_surrogate c \<and> is_trail_surrogate d
      then (0x10000 + (unat c - 0xD800) * 1024 + (unat d - 0xDC00)) # code_points cs
      else scalar_of_unit c # code_points (d # cs))"

definition utf8_bytes :: "nat \<Rightarrow> byte list" where
  "utf8_bytes cp =
     (if cp < 0x80 then [of_nat cp]
      else if cp < 0x800 then [of_nat (0xC0 + cp div 64), of_nat (0x80 + cp mod 64)]
      else if cp < 0x10000 then
        [of_nat (0xE0 + cp div 4096), of_nat (0x80 + cp div 64 mod 64), of_nat (0x80 + cp mod 64)]
      else
        [of_nat (0xF0 + cp div 262144), of_nat (0x80 + cp div 4096 mod 64),
         of_nat (0x80 + cp div 64 mod 64), of_nat (0x80 + cp mod 64)])"

definition TextEncoder_encode :: "jsstring \<Rightarrow> byte list" where
  "TextEncoder_encode s = concat (map utf8_bytes (code_points s))"

text \<open>
  Well-formed UTF-16: every lead surrogate is followed by a trail surrogate and there is no
  other surrogate. \<open>Request.text()\<close> decodes UTF-8 and so returns well-formed strings;
  \<open>slice\<close> can cut a surrogate pair and leave a lead surrogate alone at the end.
\<close>

fun well_formed_utf16 :: "jsstring \<Rightarrow> bool" where
  "well_formed_utf16 [] = True"
| "well_formed_utf16 [c] = (\<not> is_lead_surrogate c \<and> \<not> is_trail_surrogate c)"
| "well_formed_utf16 (c # d # cs) =
     (if is_lead_surrogate c then is_trail_surrogate d \<and> well_formed_utf16 cs
      else \<not> is_trail_surrogate c \<and> well_formed_utf16 (d # cs))"

section \<open>Token codec (worker.ts)\<close>

text \<open>
  \<open>btoa(String.fromCharCode(...bytes))\<close>: standard base64 with \<open>=\<close> padding. Every code
  unit handed to \<open>btoa\<close> is a byte, so it does not throw.
\<close>

definition b64_alphabet :: jsstring where
  "b64_alphabet = js ''ABCDEFGHIJKLMNOPQRSTUVWXYZabcdefghijklmnopqrstuvwxyz0123456789+/''"

definition b64_digit :: "nat \<Rightarrow> 16 word" where
  "b64_digit n = b64_alphabet ! (n mod 64)"

fun btoa :: "byte list \<Rightarrow> jsstring" where
  "btoa [] = []"
| "btoa [a] =
     [b64_digit (unat a div 4), b64_digit (unat a mod 4 * 16), 0x3D, 0x3D]"
| "btoa [a, b] =
     [b64_digit (unat a div 4), b64_digit (unat a mod 4 * 16 + unat b div 16),
      b64_digit (unat b mod 16 * 4), 0x3D]"
| "btoa (a # b # c # bs) =
     [b64_digit (unat a div 4), b64_digit (unat a mod 4 * 16 + unat b div 16),
      b64_digit (unat b mod 16 * 4 + unat c div 64), b64_digit (unat c mod 64)] @ btoa bs"

text \<open>\<open>s.replace(/x/g, y)\<close> for single characters \<open>x\<close> and \<open>y\<close>.\<close>

definition replace_all :: "16 word \<Rightarrow> 16 word \<Rightarrow> jsstring \<Rightarrow> jsstring" where
  "replace_all x y s = map (\<lambda>c. if c = x then y else c) s"

text \<open>\<open>s.replace(/=+$/, "")\<close>: the run of \<open>=\<close> at the end of the string is removed.\<close>

definition strip_trailing_eq :: "jsstring \<Rightarrow> jsstring" where
  "strip_trailing_eq s = rev (dropWhile (\<lambda>c. c = 0x3D) (rev s))"

text \<open>
  \<open>generateWebhookToken(id, secret)\<close>. The platform's \<open>crypto.subtle\<close> HMAC-SHA256
  (\<open>importKey\<close> followed by \<open>sign\<close>) is the parameter \<open>hmac\<close>, from key bytes and message
  bytes to the signature bytes.
\<close>

definition generateWebhookToken ::
  "(byte list \<Rightarrow> byte list \<Rightarrow> byte list) \<Rightarrow> jsstring \<Rightarrow> jsstring \<Rightarrow> jsstring" where
  "generateWebhookToken hmac ident secret =
     (let key = TextEncoder_encode secret;
          sig = hmac key (TextEncoder_encode ident)
      in strip_trailing_eq (replace_all 0x2F 0x5F (replace_all 0x2B 0x2D (btoa sig))))"

definition verifyWebhookToken ::
  "(byte list \<Rightarrow> byte list \<Rightarrow> byte list) \<Rightarrow> jsstring \<Rightarrow> jsstring \<Rightarrow> jsstring \<Rightarrow> bool" where
  "verifyWebhookToken hmac ident token secret =
     (let expected = generateWebhookToken hmac ident secret in token = expected)"

text \<open>
  The codec as the specification words it: base64url (the alphabet with \<open>-\<close> and \<open>_\<close>)
  of the signature, without padding.
\<close>

definition b64url_alphabet :: jsstring where
  "b64url_alphabet = js ''ABCDEFGHIJKLMNOPQRSTUVWXYZabcdefghijklmnopqrstuvwxyz0123456789-_''"

definition b64url_digit :: "nat \<Rightarrow> 16 word" where
  "b64url_digit n = b64url_alphabet ! (n mod 64)"

fun base64url_unpadded :: "byte list \<Rightarrow> jsstring" where
  "base64url_unpadded [] = []"
| "base64url_unpadded [a] =
     [b64url_digit (unat a div 4), b64url_digit (unat a mod 4 * 16)]"
| "base64url_unpadded [a, b] =
     [b64url_digit (unat a div 4), b64url_digit (unat a mod 4 * 16 + unat b div 16),
      b64url_digit (unat b mod 16 * 4)]"
| "base64url_unpadded (a # b # c # bs) =
     [b64url_digit (unat a div 4), b64url_digit (unat a mod 4 * 16 + unat b div 16),
      b64url_digit (unat b mod 16 * 4 + unat c div 64), b64url_digit (unat c mod 64)]
     @ base64url_unpadded bs"

text \<open>The two replacements of the source, as one function on characters.\<close>

definition url_char :: "16 word \<Rightarrow> 16 word" where
  "url_char c = (if c = 0x2B then 0x2D else if c = 0x2F then 0x5F else c)"

definition spec_issue ::
  "(byte list \<Rightarrow> byte list \<Rightarrow> byte list) \<Rightarrow> jsstring \<Rightarrow> jsstring \<Rightarrow> jsstring" where
  "spec_issue hmac ident secret =
     base64url_unpadded (hmac (TextEncoder_encode secret) (TextEncoder_encode ident))"

section \<open>Data model (db/schema.ts)\<close>

text \<open>
  The \<open>received_at\<close>, \<open>created_at\<close> and \<open>updated_at\<close> columns hold the text that
  \<open>Date.prototype.toISOString\<close> returns (24 characters, \<open>YYYY-MM-DDTHH:mm:ss.sssZ\<close>), and
  the queries compare them as text. For the years 0000 to 9999 that order is the order of
  the instants, so an instant is modelled as its number of milliseconds since the epoch.
\<close>

type_synonym iso_time = int

record webhook_hit =
  hit_id :: nat
  endpoint :: jsstring
  suffix :: "jsstring option"
  received_at :: iso_time
  response_ms :: int
  body_length :: nat
  body :: "jsstring option"
  forward_status :: "int option"
  forward_ms :: "int option"
  forward_error :: "jsstring option"

text \<open>A row of \<open>forward_rules\<close>, without its primary key \<open>endpoint\<close>: the table is a map
  from the key to the rest of the row.\<close>

record forward_rule =
  forward_url :: jsstring
  enabled :: bool
  persist :: bool
  created_at :: iso_time
  updated_at :: iso_time

record alias_row =
  alias_id :: nat
  alias_value :: jsstring
  label :: jsstring
  alias_created_at :: iso_time

text \<open>The D1 database: the three tables, and the last id that the autoincrement of
  \<open>webhook_hits\<close> has given out.\<close>

record database =
  webhookHits :: "webhook_hit list"
  last_row_id :: nat
  forwardRules :: "jsstring \<rightharpoonup> forward_rule"
  aliases :: "alias_row list"

section \<open>Requests, responses and the execution context\<close>

record env =
  API_TOKEN :: "jsstring option"
  LINE_CHANNEL_ACCESS_TOKEN :: "jsstring option"

text \<open>JavaScript truthiness of an optional string: \<open>undefined\<close> and \<open>""\<close> are falsy.\<close>

definition truthy :: "jsstring option \<Rightarrow> bool" where
  "truthy v = (case v of None \<Rightarrow> False | Some s \<Rightarrow> s \<noteq> [])"

text \<open>A request: its headers (\<open>Headers.get\<close>, by lower-case name) and the text of its body.\<close>

record request =
  headers :: "jsstring \<rightharpoonup> jsstring"
  text_of :: jsstring

datatype json =
  JNull | JBool bool | JNum int | JStr jsstring | JDate iso_time
  | JArr "json list" | JObj "(string \<times> json) list"

record response =
  status :: nat
  json_of :: json

definition c_json :: "json \<Rightarrow> nat \<Rightarrow> response" where
  "c_json v code = \<lparr>status = code, json_of = v\<rparr>"

text \<open>The background work handed to \<open>executionCtx.waitUntil\<close>: a call of \<open>executeForward\<close>
  (hit id, target, body, original headers) or of \<open>autoAlias\<close> (body, LINE token).\<close>

datatype task =
  ExecuteForward "nat option" jsstring jsstring "jsstring \<rightharpoonup> jsstring"
  | AutoAlias jsstring jsstring

text \<open>What a handler works on: the database, the tasks given to \<open>waitUntil\<close> so far, and
  whether the request body has been read.\<close>

record ctx =
  DB :: database
  waitUntil :: "task list"
  bodyUsed :: bool

section \<open>Hit store and rule lookup (stats.ts, forward.ts)\<close>

text \<open>
  \<open>recordHit\<close>: the row is appended with the next id, which is returned. The id of the
  argument is not used (\<open>Omit<NewWebhookHit, 'id'>\<close>). A row of the table is the values
  bound to the insert. The text columns are UTF-8 text in SQLite: a well-formed string is
  read back as it was written, and what is read back for a string with an unpaired
  surrogate is not modelled.
\<close>

definition new_hit ::
  "jsstring \<Rightarrow> jsstring option \<Rightarrow> iso_time \<Rightarrow> int \<Rightarrow> nat \<Rightarrow> jsstring \<Rightarrow> webhook_hit" where
  "new_hit ep sfx rcv ms len b =
     \<lparr>hit_id = 0, endpoint = ep, suffix = sfx, received_at = rcv, response_ms = ms,
      body_length = len, body = Some b,
      forward_status = None, forward_ms = None, forward_error = None\<rparr>"

definition recordHit :: "database \<Rightarrow> webhook_hit \<Rightarrow> database \<times> nat" where
  "recordHit db hit =
     (let i = Suc (last_row_id db)
      in (db\<lparr>webhookHits := webhookHits db @ [hit\<lparr>hit_id := i\<rparr>], last_row_id := i\<rparr>, i))"

definition getForwardRule :: "database \<Rightarrow> jsstring \<Rightarrow> forward_rule option" where
  "getForwardRule db ep = forwardRules db ep"

section \<open>Receive pipeline (worker.ts)\<close>

text \<open>\<open>rule?.persist === false\<close>: false when there is no rule.\<close>

definition persist_is_false :: "forward_rule option \<Rightarrow> bool" where
  "persist_is_false rule = (case rule of None \<Rightarrow> False | Some r \<Rightarrow> \<not> persist r)"

text \<open>The check at the head of the three webhook handlers: with a configured
  \<open>API_TOKEN\<close> the path token must verify.\<close>

definition token_rejected ::
  "(byte list \<Rightarrow> byte list \<Rightarrow> byte list) \<Rightarrow> env \<Rightarrow> jsstring \<Rightarrow> jsstring \<Rightarrow> bool" where
  "token_rejected hmac e ident token =
     (case API_TOKEN e of
        None \<Rightarrow> False
      | Some secret \<Rightarrow> secret \<noteq> [] \<and> \<not> verifyWebhookToken hmac ident token secret)"

text \<open>
  \<open>app.post("/w/:id/:token")\<close>. \<open>now\<close> is the instant \<open>new Date()\<close> and \<open>elapsed\<close> the
  rounded difference of the two \<open>performance.now()\<close> readings.
\<close>

definition post_w ::
  "(byte list \<Rightarrow> byte list \<Rightarrow> byte list) \<Rightarrow> env \<Rightarrow> jsstring \<Rightarrow> jsstring \<Rightarrow> request
   \<Rightarrow> iso_time \<Rightarrow> int \<Rightarrow> ctx \<Rightarrow> response \<times> ctx" where
  "post_w hmac e ident token req now elapsed c =
     (if token_rejected hmac e ident token
      then (c_json (JObj [(''error'', JStr (js ''Invalid webhook token''))]) 401, c)
      else
        let b = text_of req;
            c1 = c\<lparr>bodyUsed := True\<rparr>;
            rule = getForwardRule (DB c1) ident;
            (db2, hitId) =
              (if persist_is_false rule then (DB c1, None)
               else let (d, i) = recordHit (DB c1)
                                   (new_hit ident None now elapsed (length b) (take 4096 b))
                    in (d, Some i));
            c2 = c1\<lparr>DB := db2\<rparr>;
            c3 = (case rule of
                    Some r \<Rightarrow>
                      if enabled r \<and> forward_url r \<noteq> []
                      then c2\<lparr>waitUntil := waitUntil c2
                                 @ [ExecuteForward hitId (forward_url r) b (headers req)]\<rparr>
                      else c2
                  | None \<Rightarrow> c2);
            c4 = (case LINE_CHANNEL_ACCESS_TOKEN e of
                    Some line_token \<Rightarrow>
                      if ident = js ''line'' \<and> line_token \<noteq> []
                      then c3\<lparr>waitUntil := waitUntil c3 @ [AutoAlias b line_token]\<rparr>
                      else c3
                  | None \<Rightarrow> c3)
        in (c_json (JObj [(''ok'', JBool True), (''endpoint'', JStr ident),
                          (''received_at'', JDate now), (''response_ms'', JNum elapsed)]) 200,
            c4))"

text \<open>
  \<open>app.post("/w/:id/:token/github")\<close>. \<open>summarize event raw\<close> stands for
  \<open>parseGitHubEvent(event, JSON.parse(raw))\<close>, \<open>None\<close> when either of them throws.
\<close>

definition post_w_github ::
  "(byte list \<Rightarrow> byte list \<Rightarrow> byte list) \<Rightarrow> (jsstring \<Rightarrow> jsstring \<Rightarrow> jsstring option) \<Rightarrow> env
   \<Rightarrow> jsstring \<Rightarrow> jsstring \<Rightarrow> request \<Rightarrow> iso_time \<Rightarrow> int \<Rightarrow> ctx \<Rightarrow> response \<times> ctx" where
  "post_w_github hmac summarize e ident token req now elapsed c =
     (if token_rejected hmac e ident token
      then (c_json (JObj [(''error'', JStr (js ''Invalid webhook token''))]) 401, c)
      else
        let raw = text_of req;
            c1 = c\<lparr>bodyUsed := True\<rparr>;
            event = (case headers req (js ''x-github-event'') of
                       Some v \<Rightarrow> v | None \<Rightarrow> js ''unknown'');
            parsed = (case summarize event raw of
                        Some p \<Rightarrow> p
                      | None \<Rightarrow> js ''['' @ event @ js ''] (invalid JSON) '' @ take 512 raw);
            rule = getForwardRule (DB c1) ident;
            (db2, hitId) =
              (if persist_is_false rule then (DB c1, None)
               else let (d, i) = recordHit (DB c1)
                                   (new_hit ident (Some (js ''/github'')) now elapsed
                                      (length raw) parsed)
                    in (d, Some i));
            c2 = c1\<lparr>DB := db2\<rparr>;
            c3 = (case rule of
                    Some r \<Rightarrow>
                      if enabled r \<and> forward_url r \<noteq> []
                      then c2\<lparr>waitUntil := waitUntil c2
                                 @ [ExecuteForward hitId (forward_url r) raw (headers req)]\<rparr>
                      else c2
                  | None \<Rightarrow> c2)
        in (c_json (JObj [(''ok'', JBool True), (''endpoint'', JStr ident),
                          (''event'', JStr event),
                          (''received_at'', JDate now), (''response_ms'', JNum elapsed)]) 200,
            c3))"

text \<open>\<open>app.post("/w/:id/:token/:suffix")\<close>.\<close>

definition post_w_suffix ::
  "(byte list \<Rightarrow> byte list \<Rightarrow> byte list) \<Rightarrow> env \<Rightarrow> jsstring \<Rightarrow> jsstring \<Rightarrow> jsstring
   \<Rightarrow> request \<Rightarrow> iso_time \<Rightarrow> int \<Rightarrow> ctx \<Rightarrow> response \<times> ctx" where
  "post_w_suffix hmac e ident token sfx req now elapsed c =
     (if token_rejected hmac e ident token
      then (c_json (JObj [(''error'', JStr (js ''Invalid webhook token''))]) 401, c)
      else
        let b = text_of req;
            c1 = c\<lparr>bodyUsed := True\<rparr>;
            rule = getForwardRule (DB c1) ident;
            (db2, hitId) =
              (if persist_is_false rule then (DB c1, None)
               else let (d, i) = recordHit (DB c1)
                                   (new_hit ident (Some (js ''/'' @ sfx)) now elapsed
                                      (length b) (take 4096 b))
                    in (d, Some i));
            c2 = c1\<lparr>DB := db2\<rparr>;
            c3 = (case rule of
                    Some r \<Rightarrow>
                      if enabled r \<and> forward_url r \<noteq> []
                      then c2\<lparr>waitUntil := waitUntil c2
                                 @ [ExecuteForward hitId (forward_url r) b (headers req)]\<rparr>
                      else c2
                  | None \<Rightarrow> c2)
        in (c_json (JObj [(''ok'', JBool True), (''endpoint'', JStr ident),
                          (''suffix'', JStr sfx),
                          (''received_at'', JDate now), (''response_ms'', JNum elapsed)]) 200,
            c3))"

section \<open>Forward executor (forward.ts)\<close>

text \<open>
  The one call of the platform's \<open>fetch\<close>: what is sent, and how the call ends. It resolves
  with the status of the HTTP response, or rejects (network failure, abort by the timeout
  signal) with an error whose \<open>message\<close> may be missing.
\<close>

record fetch_request =
  fetch_url :: jsstring
  fetch_method :: jsstring
  fetch_headers :: "(jsstring \<times> jsstring) list"
  fetch_body :: jsstring
  signal_timeout :: nat

datatype fetch_result = Resolved int | Rejected "jsstring option"

text \<open>\<open>originalHeaders.get(name) || fallback\<close>.\<close>

definition header_or :: "(jsstring \<rightharpoonup> jsstring) \<Rightarrow> jsstring \<Rightarrow> jsstring \<Rightarrow> jsstring" where
  "header_or hs name fallback =
     (case hs name of None \<Rightarrow> fallback | Some v \<Rightarrow> if v = [] then fallback else v)"

definition forward_headers :: "(jsstring \<rightharpoonup> jsstring) \<Rightarrow> (jsstring \<times> jsstring) list" where
  "forward_headers originalHeaders =
     [(js ''content-type'', header_or originalHeaders (js ''content-type'') (js ''application/json'')),
      (js ''user-agent'', js ''webhook-relay/0.5.0'')]
     @ (case originalHeaders (js ''x-github-event'') of
          None \<Rightarrow> []
        | Some ghEvent \<Rightarrow> if ghEvent = [] then [] else [(js ''x-github-event'', ghEvent)])"

text \<open>
  \<open>executeForward\<close>. \<open>fetch\<close> is the platform's function and \<open>elapsed\<close> the rounded
  time between the two \<open>performance.now()\<close> readings. The result is the database after the
  update and the list of the calls of \<open>fetch\<close> that were made.
\<close>

definition executeForward ::
  "(fetch_request \<Rightarrow> fetch_result) \<Rightarrow> int \<Rightarrow> database \<Rightarrow> nat option \<Rightarrow> jsstring \<Rightarrow> jsstring
   \<Rightarrow> (jsstring \<rightharpoonup> jsstring) \<Rightarrow> database \<times> fetch_request list" where
  "executeForward fetch elapsed db hitId forwardUrl b originalHeaders =
     (let rq = \<lparr>fetch_url = forwardUrl, fetch_method = js ''POST'',
                fetch_headers = forward_headers originalHeaders,
                fetch_body = b, signal_timeout = 10000\<rparr>;
          (st, err) = (case fetch rq of
                         Resolved code \<Rightarrow> (Some code, None)
                       | Rejected msg \<Rightarrow>
                           (Some 0, Some (case msg of Some m \<Rightarrow> m
                                          | None \<Rightarrow> js ''Unknown fetch error'')));
          fwd_ms = elapsed;
          db' = (case hitId of
                   None \<Rightarrow> db
                 | Some i \<Rightarrow>
                     db\<lparr>webhookHits :=
                          map (\<lambda>h. if hit_id h = i
                                    then h\<lparr>forward_status := st, forward_ms := Some fwd_ms,
                                           forward_error := err\<rparr>
                                    else h) (webhookHits db)\<rparr>)
      in (db', [rq]))"

section \<open>Session check (worker.ts)\<close>

text \<open>\<open>String.prototype.split\<close> on a one-character separator, \<open>join\<close>, and \<open>trim\<close> (white
  space and line terminators of ECMAScript).\<close>

fun split_on :: "16 word \<Rightarrow> jsstring \<Rightarrow> jsstring list" where
  "split_on sep [] = [[]]"
| "split_on sep (x # xs) =
     (if x = sep then [] # split_on sep xs
      else (case split_on sep xs of
              [] \<Rightarrow> [[x]]
            | p # ps \<Rightarrow> (x # p) # ps))"

fun join_with :: "jsstring \<Rightarrow> jsstring list \<Rightarrow> jsstring" where
  "join_with sep [] = []"
| "join_with sep [p] = p"
| "join_with sep (p # q # ps) = p @ sep @ join_with sep (q # ps)"

definition is_js_space :: "16 word \<Rightarrow> bool" where
  "is_js_space c =
     ((0x09 \<le> c \<and> c \<le> 0x0D) \<or> c = 0x20 \<or> c = 0xA0 \<or> c = 0x1680
      \<or> (0x2000 \<le> c \<and> c \<le> 0x200A) \<or> c = 0x2028 \<or> c = 0x2029 \<or> c = 0x202F
      \<or> c = 0x205F \<or> c = 0x3000 \<or> c = 0xFEFF)"

definition trim :: "jsstring \<Rightarrow> jsstring" where
  "trim s = rev (dropWhile is_js_space (rev (dropWhile is_js_space s)))"

text \<open>\<open>getCookie\<close>: the loop over the parts of the cookie header returns at the first
  part whose name matches.\<close>

fun first_cookie :: "jsstring \<Rightarrow> jsstring list \<Rightarrow> jsstring option" where
  "first_cookie name [] = None"
| "first_cookie name (part # parts) =
     (case split_on 0x3D (trim part) of
        [] \<Rightarrow> first_cookie name parts
      | k # rest \<Rightarrow> if k = name then Some (join_with (js ''='') rest)
                   else first_cookie name parts)"

definition getCookie :: "request \<Rightarrow> jsstring \<Rightarrow> jsstring option" where
  "getCookie req name =
     (let header = (case headers req (js ''cookie'') of Some v \<Rightarrow> v | None \<Rightarrow> [])
      in first_cookie name (split_on 0x3B header))"

definition checkAuth :: "request \<Rightarrow> env \<Rightarrow> bool" where
  "checkAuth req e =
     (case API_TOKEN e of
        None \<Rightarrow> True
      | Some tok \<Rightarrow>
          if tok = [] then True
          else if headers req (js ''authorization'') = Some (js ''Bearer '' @ tok) then True
          else if getCookie req (js ''api_token'') = Some tok then True
          else False)"

section \<open>Retention sweep (stats.ts, worker.ts)\<close>

text \<open>\<open>purgeOldHits\<close> at the instant \<open>now\<close> (\<open>Date.now()\<close>): the rows with
  \<open>received_at < cutoff\<close> are deleted, and \<open>deleted\<close> is the number of rows the delete changed.\<close>

definition purgeOldHits :: "iso_time \<Rightarrow> database \<Rightarrow> database \<times> nat" where
  "purgeOldHits now db =
     (let cutoff = now - 7 * 24 * 60 * 60 * 1000;
          changes = length (filter (\<lambda>h. received_at h < cutoff) (webhookHits db))
      in (db\<lparr>webhookHits := filter (\<lambda>h. \<not> received_at h < cutoff) (webhookHits db)\<rparr>,
          changes))"

definition api_purge :: "env \<Rightarrow> request \<Rightarrow> iso_time \<Rightarrow> database \<Rightarrow> response \<times> database" where
  "api_purge e req now db =
     (if \<not> checkAuth req e
      then (c_json (JObj [(''error'', JStr (js ''Unauthorized''))]) 401, db)
      else let (db', n) = purgeOldHits now db
           in (c_json (JObj [(''deleted'', JNum (int n))]) 200, db'))"

section \<open>Hits query (worker.ts)\<close>

text \<open>
  Instants of the proleptic Gregorian calendar, for writing dates: the day number of a
  civil date (days since 1970-01-01) and \<open>Date.UTC\<close> with a month counted from 1.
\<close>

definition days_from_civil :: "int \<Rightarrow> int \<Rightarrow> int \<Rightarrow> int" where
  "days_from_civil y m d =
     (let y' = (if m \<le> 2 then y - 1 else y);
          era = y' div 400;
          yoe = y' - era * 400;
          doy = (153 * (if m > 2 then m - 3 else m + 9) + 2) div 5 + d - 1;
          doe = yoe * 365 + yoe div 4 - yoe div 100 + doy
      in era * 146097 + doe - 719468)"

definition Date_UTC :: "int \<Rightarrow> int \<Rightarrow> int \<Rightarrow> int \<Rightarrow> int \<Rightarrow> int \<Rightarrow> int \<Rightarrow> iso_time" where
  "Date_UTC y m d hh mi ss ms =
     (((days_from_civil y m d * 24 + hh) * 60 + mi) * 60 + ss) * 1000 + ms"

text \<open>
  The \<open>date\<close> query parameter: absent, empty or \<open>"today"\<close>, or the text \<open>YYYY-MM-DD\<close> of a
  calendar day, given by its day number.
\<close>

datatype date_param = Today | Day int

definition GMT7_OFFSET_MS :: int where
  "GMT7_OFFSET_MS = 7 * 60 * 60 * 1000"

text \<open>\<open>new Date(`${day}T00:00:00+07:00`)\<close> and \<open>new Date(`${day}T23:59:59.999+07:00`)\<close>.\<close>

definition fromISO_of :: "int \<Rightarrow> iso_time" where
  "fromISO_of day = day * 86400000 - GMT7_OFFSET_MS"

definition toISO_of :: "int \<Rightarrow> iso_time" where
  "toISO_of day = day * 86400000 + (((23 * 60 + 59) * 60 + 59) * 1000 + 999) - GMT7_OFFSET_MS"

text \<open>The day of the query: for \<open>today\<close>, the UTC calendar fields of \<open>Date.now() + 7h\<close>.\<close>

definition query_day :: "date_param \<Rightarrow> iso_time \<Rightarrow> int" where
  "query_day dateParam now =
     (case dateParam of Today \<Rightarrow> (now + GMT7_OFFSET_MS) div 86400000 | Day d \<Rightarrow> d)"

text \<open>
  The select: \<open>gte(received_at, fromISO)\<close>, \<open>lt(received_at, toISO)\<close>, the endpoint filter
  when the parameter is a non-empty string, \<open>orderBy(desc(received_at))\<close>, \<open>limit(500)\<close>.
  Rows with equal \<open>received_at\<close> are kept in table order.
\<close>

definition select_hits ::
  "iso_time \<Rightarrow> iso_time \<Rightarrow> jsstring option \<Rightarrow> database \<Rightarrow> webhook_hit list" where
  "select_hits fromISO toISO endpointParam db =
     take 500
       (sort_key (\<lambda>h. - received_at h)
          (filter (\<lambda>h. received_at h \<ge> fromISO \<and> received_at h < toISO
                       \<and> (if truthy endpointParam then Some (endpoint h) = endpointParam
                            else True))
             (webhookHits db)))"

record hits_page =
  page_from :: iso_time
  page_to :: iso_time
  page_count :: nat
  page_hits :: "webhook_hit list"

definition api_hits ::
  "env \<Rightarrow> request \<Rightarrow> date_param \<Rightarrow> jsstring option \<Rightarrow> iso_time \<Rightarrow> database
   \<Rightarrow> response + hits_page" where
  "api_hits e req dateParam endpointParam now db =
     (if \<not> checkAuth req e
      then Inl (c_json (JObj [(''error'', JStr (js ''Unauthorized''))]) 401)
      else
        let fromISO = fromISO_of (query_day dateParam now);
            toISO = toISO_of (query_day dateParam now);
            hits = select_hits fromISO toISO endpointParam db
        in Inr \<lparr>page_from = fromISO, page_to = toISO, page_count = length hits,
                page_hits = hits\<rparr>)"

text \<open>The window as the specification words it: both ends belong to it.\<close>

definition in_day_window :: "int \<Rightarrow> iso_time \<Rightarrow> bool" where
  "in_day_window day t = (fromISO_of day \<le> t \<and> t \<le> toISO_of day)"

section \<open>Forward rules (worker.ts, mcp-handler.ts)\<close>

text \<open>The JSON body of the PUT, and the arguments of the MCP tool: \<open>forward_url\<close> with the
  optional \<open>enabled\<close> and \<open>persist\<close>. \<open>None\<close> is a missing (or null) field.\<close>

record rule_body =
  body_forward_url :: "jsstring option"
  body_enabled :: "bool option"
  body_persist :: "bool option"

text \<open>\<open>x ?? d\<close>.\<close>

definition nullish :: "'a option \<Rightarrow> 'a \<Rightarrow> 'a" where
  "nullish x d = (case x of None \<Rightarrow> d | Some v \<Rightarrow> v)"

text \<open>\<open>insert(forwardRules).values({...}).onConflictDoUpdate({target: endpoint, set: {...}})\<close>.\<close>

definition upsert_forward_rule ::
  "database \<Rightarrow> jsstring \<Rightarrow> jsstring \<Rightarrow> bool \<Rightarrow> bool \<Rightarrow> iso_time \<Rightarrow> database" where
  "upsert_forward_rule db ep fwd en pe now =
     db\<lparr>forwardRules := (forwardRules db)(ep \<mapsto>
          (case forwardRules db ep of
             None \<Rightarrow> \<lparr>forward_url = fwd, enabled = en, persist = pe,
                       created_at = now, updated_at = now\<rparr>
           | Some old \<Rightarrow> old\<lparr>forward_url := fwd, enabled := en, persist := pe,
                               updated_at := now\<rparr>))\<rparr>"

text \<open>\<open>app.put("/api/forward-rules/:endpoint")\<close>. \<open>url_ok s\<close> says that \<open>new URL(s)\<close> does
  not throw.\<close>

definition put_forward_rule ::
  "(jsstring \<Rightarrow> bool) \<Rightarrow> env \<Rightarrow> request \<Rightarrow> jsstring \<Rightarrow> rule_body \<Rightarrow> iso_time \<Rightarrow> database
   \<Rightarrow> response \<times> database" where
  "put_forward_rule url_ok e req ep b now db =
     (if \<not> checkAuth req e
      then (c_json (JObj [(''error'', JStr (js ''Unauthorized''))]) 401, db)
      else (case body_forward_url b of
              None \<Rightarrow> (c_json (JObj [(''error'', JStr (js ''Missing forward_url''))]) 400, db)
            | Some fwd \<Rightarrow>
                if fwd = []
                then (c_json (JObj [(''error'', JStr (js ''Missing forward_url''))]) 400, db)
                else if \<not> url_ok fwd
                then (c_json (JObj [(''error'', JStr (js ''Invalid forward_url''))]) 400, db)
                else (c_json (JObj [(''ok'', JBool True), (''endpoint'', JStr ep)]) 200,
                      upsert_forward_rule db ep fwd
                        (nullish (body_enabled b) True) (nullish (body_persist b) True) now)))"

text \<open>\<open>callTool\<close>, case \<open>"set_forward_rule"\<close>. A missing \<open>forward_url\<close> makes \<open>new URL\<close>
  throw.\<close>

datatype tool_result = ToolText json | ToolError jsstring

definition set_forward_rule ::
  "(jsstring \<Rightarrow> bool) \<Rightarrow> jsstring \<Rightarrow> rule_body \<Rightarrow> iso_time \<Rightarrow> database
   \<Rightarrow> tool_result \<times> database" where
  "set_forward_rule url_ok ep args now db =
     (case body_forward_url args of
        None \<Rightarrow> (ToolError (js ''Error: Invalid forward_url''), db)
      | Some fwd \<Rightarrow>
          if \<not> url_ok fwd then (ToolError (js ''Error: Invalid forward_url''), db)
          else (ToolText (JObj [(''ok'', JBool True), (''endpoint'', JStr ep)]),
                upsert_forward_rule db ep fwd
                  (nullish (body_enabled args) True) (nullish (body_persist args) True) now))"

section \<open>Sizes in bytes\<close>


section \<open>Tasks of a handler\<close>


fun without_hit_id :: "task \<Rightarrow> bool" where
  "without_hit_id (ExecuteForward hitId u b hs) = (hitId = None)"
| "without_hit_id (AutoAlias b t) = True"

section \<open>Example inputs\<close>

definition example_hmac :: "byte list \<Rightarrow> byte list \<Rightarrow> byte list" where
  "example_hmac k m = 0xFB # 0xFF # k @ m"

definition example_env :: env where
  "example_env = \<lparr>API_TOKEN = Some (js ''u:p''), LINE_CHANNEL_ACCESS_TOKEN = None\<rparr>"

definition open_env :: env where
  "open_env = \<lparr>API_TOKEN = None, LINE_CHANNEL_ACCESS_TOKEN = None\<rparr>"

definition example_request :: request where
  "example_request = \<lparr>headers = Map.empty, text_of = js ''{}''\<rparr>"

definition empty_db :: database where
  "empty_db = \<lparr>webhookHits = [], last_row_id = 0, forwardRules = Map.empty, aliases = []\<rparr>"

definition example_rule :: forward_rule where
  "example_rule = \<lparr>forward_url = js ''https://example.com/hook'', enabled = True,
                    persist = False, created_at = 5, updated_at = 6\<rparr>"

definition fresh_ctx :: "database \<Rightarrow> ctx" where
  "fresh_ctx db = \<lparr>DB = db, waitUntil = [], bodyUsed = False\<rparr>"

definition example_db :: database where
  "example_db = empty_db\<lparr>forwardRules := [js ''gh'' \<mapsto> example_rule]\<rparr>"


definition authed_request :: request where
  "authed_request = \<lparr>headers = [js ''authorization'' \<mapsto> js ''Bearer u:p''], text_of = []\<rparr>"

definition example_hit :: "nat \<Rightarrow> iso_time \<Rightarrow> webhook_hit" where
  "example_hit i t = (new_hit (js ''gh'') None t 1 2 (js ''{}''))\<lparr>hit_id := i\<rparr>"

text \<open>Three hits around the end of 2024-01-01 in UTC+7: half a second before local
  midnight, at the last millisecond of the day, and half a second into the next day.\<close>

definition boundary_db :: database where
  "boundary_db = empty_db\<lparr>webhookHits :=
       [example_hit 1 (Date_UTC 2024 1 1 16 59 59 500),
        example_hit 2 (Date_UTC 2024 1 1 16 59 59 999),
        example_hit 3 (Date_UTC 2024 1 1 17 0 0 500)],
     last_row_id := 3\<rparr>"


text \<open>A body whose surrogate pair D83D DE00 lies across the cut at 4096 code units.\<close>

definition split_pair_body :: jsstring where
  "split_pair_body = replicate 4095 0x61 @ [0xD83D, 0xDE00]"


section \<open>Properties of the token codec\<close>

lemma b64_alphabet_length: "length b64_alphabet = 64"
  by (simp add: b64_alphabet_def js_def)

lemma b64url_alphabet_length: "length b64url_alphabet = 64"
  by (simp add: b64url_alphabet_def js_def)

lemma replace_all_url_char:
  "replace_all 0x2F 0x5F (replace_all 0x2B 0x2D s) = map url_char s"
  by (simp add: replace_all_def url_char_def)

lemma url_alphabet_replaced: "map url_char b64_alphabet = b64url_alphabet"
  by (simp add: url_char_def b64_alphabet_def b64url_alphabet_def js_def)

lemma url_digit_replaced: "url_char (b64_digit n) = b64url_digit n"
proof -
  have "url_char (b64_alphabet ! (n mod 64)) = map url_char b64_alphabet ! (n mod 64)"
    by (simp add: b64_alphabet_length)
  then show ?thesis
    by (simp only: url_alphabet_replaced b64_digit_def b64url_digit_def)
qed

lemma b64url_digit_not_eq: "b64url_digit n \<noteq> 0x3D"
proof -
  have "0x3D \<notin> set b64url_alphabet"
    by (simp add: b64url_alphabet_def js_def)
  moreover have "b64url_alphabet ! (n mod 64) \<in> set b64url_alphabet"
    by (rule nth_mem) (simp add: b64url_alphabet_length)
  ultimately show ?thesis
    by (auto simp: b64url_digit_def)
qed

lemma base64url_unpadded_no_eq: "0x3D \<notin> set (base64url_unpadded bs)"
  by (induction bs rule: base64url_unpadded.induct) (simp_all add: b64url_digit_not_eq)

lemma url_char_eq: "url_char 0x3D = 0x3D"
  by (simp add: url_char_def)

lemma btoa_replaced:
  "\<exists>k. map url_char (btoa bs) = base64url_unpadded bs @ replicate k 0x3D"
proof (induction bs rule: btoa.induct)
  case 1
  show ?case by simp
next
  case (2 a)
  have "map url_char (btoa [a]) = base64url_unpadded [a] @ replicate (Suc (Suc 0)) 0x3D"
    by (simp add: url_digit_replaced url_char_eq)
  then show ?case by blast
next
  case (3 a b)
  have "map url_char (btoa [a, b]) = base64url_unpadded [a, b] @ replicate (Suc 0) 0x3D"
    by (simp add: url_digit_replaced url_char_eq)
  then show ?case by blast
next
  case (4 a b c bs)
  then obtain k where
    k: "map url_char (btoa bs) = base64url_unpadded bs @ replicate k 0x3D"
    by blast
  have "map url_char (btoa (a # b # c # bs))
        = base64url_unpadded (a # b # c # bs) @ replicate k 0x3D"
    using k by (simp add: url_digit_replaced)
  then show ?case by blast
qed

lemma strip_trailing_eq_padding:
  assumes "0x3D \<notin> set ys"
  shows "strip_trailing_eq (ys @ replicate k 0x3D) = ys"
proof -
  have "dropWhile (\<lambda>c. c = 0x3D) (replicate k (0x3D :: 16 word) @ rev ys)
        = dropWhile (\<lambda>c. c = 0x3D) (rev ys)"
    by (induction k) simp_all
  moreover have "dropWhile (\<lambda>c. c = 0x3D) (rev ys) = rev ys"
    using assms by (cases "rev ys") auto
  ultimately show ?thesis
    by (simp add: strip_trailing_eq_def)
qed

lemma generateWebhookToken_is_base64url:
  "generateWebhookToken hmac ident secret = spec_issue hmac ident secret"
proof -
  obtain k where
    "map url_char (btoa (hmac (TextEncoder_encode secret) (TextEncoder_encode ident)))
     = base64url_unpadded (hmac (TextEncoder_encode secret) (TextEncoder_encode ident))
       @ replicate k 0x3D"
    using btoa_replaced by blast
  then show ?thesis
    by (simp add: generateWebhookToken_def spec_issue_def Let_def replace_all_url_char
        strip_trailing_eq_padding base64url_unpadded_no_eq)
qed

text \<open>
  C1. For every endpoint id and secret, the token issued for them verifies; every other
  token string is rejected; and the issued token is the unpadded base64url text of the
  HMAC of the endpoint id under the secret.
\<close>

theorem token_roundtrip:
  "verifyWebhookToken hmac ident (generateWebhookToken hmac ident secret) secret
   \<and> (\<forall>t. t \<noteq> generateWebhookToken hmac ident secret
          \<longrightarrow> \<not> verifyWebhookToken hmac ident t secret)
   \<and> generateWebhookToken hmac ident secret
       = base64url_unpadded (hmac (TextEncoder_encode secret) (TextEncoder_encode ident))"
  using generateWebhookToken_is_base64url [of hmac ident secret]
  by (simp add: verifyWebhookToken_def spec_issue_def)

lemma token_example:
  "generateWebhookToken example_hmac (js ''gh'') (js ''u:p'') = js ''-_91OnBnaA''"
  by code_simp

theorem token_roundtrip_witness:
  "verifyWebhookToken example_hmac (js ''gh'') (js ''-_91OnBnaA'') (js ''u:p'')
   \<and> js ''-_91OnBnaB'' \<noteq> generateWebhookToken example_hmac (js ''gh'') (js ''u:p'')
   \<and> \<not> verifyWebhookToken example_hmac (js ''gh'') (js ''-_91OnBnaB'') (js ''u:p'')"
proof -
  have ne: "js ''-_91OnBnaB'' \<noteq> generateWebhookToken example_hmac (js ''gh'') (js ''u:p'')"
    unfolding token_example by (simp add: js_def)
  note r = token_roundtrip [of example_hmac "js ''gh''" "js ''u:p''"]
  have a: "verifyWebhookToken example_hmac (js ''gh'') (js ''-_91OnBnaA'') (js ''u:p'')"
    using conjunct1 [OF r] unfolding token_example .
  have b: "\<not> verifyWebhookToken example_hmac (js ''gh'') (js ''-_91OnBnaB'') (js ''u:p'')"
  proof -
    have "js ''-_91OnBnaB'' \<noteq> generateWebhookToken example_hmac (js ''gh'') (js ''u:p'')
          \<longrightarrow> \<not> verifyWebhookToken example_hmac (js ''gh'') (js ''-_91OnBnaB'') (js ''u:p'')"
      using conjunct1 [OF conjunct2 [OF r]] by (rule spec)
    from this ne show ?thesis by (rule mp)
  qed
  from a ne b show ?thesis by (intro conjI)
qed

section \<open>Properties of the receive pipeline\<close>

lemma example_token_accepted:
  "verifyWebhookToken example_hmac (js ''gh'') (js ''-_91OnBnaA'') (js ''u:p'')"
  by (simp add: verifyWebhookToken_def token_example)

lemma example_token_refused:
  "\<not> verifyWebhookToken example_hmac (js ''gh'') (js ''-_91OnBnaB'') (js ''u:p'')"
  unfolding verifyWebhookToken_def Let_def token_example by (simp add: js_def)

lemma token_rejected_iff:
  "token_rejected hmac e ident token
   = (\<exists>secret. API_TOKEN e = Some secret \<and> secret \<noteq> []
        \<and> \<not> verifyWebhookToken hmac ident token secret)"
  by (simp add: token_rejected_def split: option.splits)


lemma post_w_rejected:
  "token_rejected hmac e ident token \<Longrightarrow>
   post_w hmac e ident token req now elapsed c
   = (c_json (JObj [(''error'', JStr (js ''Invalid webhook token''))]) 401, c)"
  by (simp add: post_w_def)

lemma post_w_accepted_reply:
  "\<not> token_rejected hmac e ident token \<Longrightarrow>
   fst (post_w hmac e ident token req now elapsed c)
   = c_json (JObj [(''ok'', JBool True), (''endpoint'', JStr ident),
                   (''received_at'', JDate now), (''response_ms'', JNum elapsed)]) 200"
  by (simp add: post_w_def Let_def split: prod.splits)

text \<open>
  C2. On \<open>POST /w/{endpoint}/{token}\<close>, when a secret is configured and the path token does
  not verify for the endpoint id, the reply is 401 with the error and the context is left
  as it was: the body is not read, no hit is stored, nothing is scheduled. In every other
  case the reply is 200 with \<open>{ok, endpoint, received_at, response_ms}\<close>.
\<close>

theorem post_w_authenticates:
  "((\<exists>secret. API_TOKEN e = Some secret \<and> secret \<noteq> []
        \<and> \<not> verifyWebhookToken hmac ident token secret)
      \<longrightarrow> post_w hmac e ident token req now elapsed c
          = (c_json (JObj [(''error'', JStr (js ''Invalid webhook token''))]) 401, c))
   \<and> (\<not> (\<exists>secret. API_TOKEN e = Some secret \<and> secret \<noteq> []
        \<and> \<not> verifyWebhookToken hmac ident token secret)
      \<longrightarrow> fst (post_w hmac e ident token req now elapsed c)
          = c_json (JObj [(''ok'', JBool True), (''endpoint'', JStr ident),
                          (''received_at'', JDate now), (''response_ms'', JNum elapsed)]) 200)"
  using post_w_rejected [of hmac e ident token req now elapsed c]
    post_w_accepted_reply [of hmac e ident token req now elapsed c]
  by (simp add: token_rejected_iff)

theorem post_w_authenticates_witness:
  "post_w example_hmac example_env (js ''gh'') (js ''-_91OnBnaB'') example_request 1000 3
     (fresh_ctx empty_db)
   = (c_json (JObj [(''error'', JStr (js ''Invalid webhook token''))]) 401, fresh_ctx empty_db)
   \<and> fst (post_w example_hmac example_env (js ''gh'') (js ''-_91OnBnaA'') example_request 1000 3
            (fresh_ctx empty_db))
     = c_json (JObj [(''ok'', JBool True), (''endpoint'', JStr (js ''gh'')),
                     (''received_at'', JDate 1000), (''response_ms'', JNum 3)]) 200"
proof -
  have bad: "\<exists>secret. API_TOKEN example_env = Some secret \<and> secret \<noteq> []
       \<and> \<not> verifyWebhookToken example_hmac (js ''gh'') (js ''-_91OnBnaB'') secret"
    using example_token_refused by (simp add: example_env_def js_def)
  have good: "\<not> (\<exists>secret. API_TOKEN example_env = Some secret \<and> secret \<noteq> []
       \<and> \<not> verifyWebhookToken example_hmac (js ''gh'') (js ''-_91OnBnaA'') secret)"
    using example_token_accepted by (simp add: example_env_def)
  from bad good show ?thesis
    using post_w_authenticates [of example_env example_hmac "js ''gh''" "js ''-_91OnBnaB''"
        example_request 1000 3 "fresh_ctx empty_db"]
      post_w_authenticates [of example_env example_hmac "js ''gh''" "js ''-_91OnBnaA''"
        example_request 1000 3 "fresh_ctx empty_db"]
    by blast
qed

lemma executeForward_without_hit:
  "fst (executeForward fetch elapsed db None u b hs) = db"
  by (simp add: executeForward_def Let_def split: prod.splits)

lemma post_w_no_persist:
  assumes "getForwardRule (DB c) ident = Some r" and "\<not> persist r"
  shows "DB (snd (post_w hmac e ident token req now elapsed c)) = DB c"
    and "\<forall>t \<in> set (waitUntil (snd (post_w hmac e ident token req now elapsed c))).
           t \<in> set (waitUntil c) \<or> without_hit_id t"
  using assms
  by (auto simp: post_w_def Let_def persist_is_false_def split: option.splits)

lemma post_w_github_no_persist:
  assumes "getForwardRule (DB c) ident = Some r" and "\<not> persist r"
  shows "DB (snd (post_w_github hmac summarize e ident token req now elapsed c)) = DB c"
    and "\<forall>t \<in> set (waitUntil (snd (post_w_github hmac summarize e ident token req now elapsed c))).
           t \<in> set (waitUntil c) \<or> without_hit_id t"
  using assms
  by (auto simp: post_w_github_def Let_def persist_is_false_def split: option.splits)

lemma post_w_suffix_no_persist:
  assumes "getForwardRule (DB c) ident = Some r" and "\<not> persist r"
  shows "DB (snd (post_w_suffix hmac e ident token sfx req now elapsed c)) = DB c"
    and "\<forall>t \<in> set (waitUntil (snd (post_w_suffix hmac e ident token sfx req now elapsed c))).
           t \<in> set (waitUntil c) \<or> without_hit_id t"
  using assms
  by (auto simp: post_w_suffix_def Let_def persist_is_false_def split: option.splits)

lemma example_db_rule:
  "getForwardRule (DB (fresh_ctx example_db)) (js ''gh'') = Some example_rule"
  by (simp add: getForwardRule_def fresh_ctx_def example_db_def)

text \<open>
  C3. When the endpoint's rule has \<open>persist = false\<close>, none of the three webhook handlers
  writes to the database, whatever \<open>enabled\<close> says, and every task the handler schedules
  carries no hit id; the forward executor without a hit id leaves the database as it was,
  whatever the forward's outcome.
\<close>

theorem persist_false_writes_nothing:
  assumes "getForwardRule (DB c) ident = Some r" and "persist r = False"
  shows
    "DB (snd (post_w hmac e ident token req now elapsed c)) = DB c
     \<and> DB (snd (post_w_github hmac summarize e ident token req now elapsed c)) = DB c
     \<and> DB (snd (post_w_suffix hmac e ident token sfx req now elapsed c)) = DB c
     \<and> (\<forall>t \<in> set (waitUntil (snd (post_w hmac e ident token req now elapsed c)))
             \<union> set (waitUntil (snd (post_w_github hmac summarize e ident token req now elapsed c)))
             \<union> set (waitUntil (snd (post_w_suffix hmac e ident token sfx req now elapsed c))).
           t \<in> set (waitUntil c) \<or> without_hit_id t)
     \<and> (\<forall>fetch ms db u b hs. fst (executeForward fetch ms db None u b hs) = db)"
  using assms post_w_no_persist [of c ident r hmac e token req now elapsed]
    post_w_github_no_persist [of c ident r hmac summarize e token req now elapsed]
    post_w_suffix_no_persist [of c ident r hmac e token sfx req now elapsed]
    executeForward_without_hit
  by (simp add: ball_Un)

theorem persist_false_writes_nothing_witness:
  "getForwardRule (DB (fresh_ctx example_db)) (js ''gh'') = Some example_rule
   \<and> persist example_rule = False \<and> enabled example_rule
   \<and> DB (snd (post_w example_hmac example_env (js ''gh'') (js ''-_91OnBnaA'') example_request
                 1000 3 (fresh_ctx example_db))) = example_db
   \<and> list_all without_hit_id
       (waitUntil (snd (post_w example_hmac example_env (js ''gh'') (js ''-_91OnBnaA'')
                          example_request 1000 3 (fresh_ctx example_db))))"
proof -
  have p: "persist example_rule = False" and en: "enabled example_rule"
    by (simp_all add: example_rule_def)
  note t = persist_false_writes_nothing [OF example_db_rule p,
      where hmac = example_hmac and e = example_env and token = "js ''-_91OnBnaA''"
        and req = example_request and now = 1000 and elapsed = 3]
  have d: "DB (snd (post_w example_hmac example_env (js ''gh'') (js ''-_91OnBnaA'')
                      example_request 1000 3 (fresh_ctx example_db))) = example_db"
    using t by (simp add: fresh_ctx_def)
  have w: "list_all without_hit_id
       (waitUntil (snd (post_w example_hmac example_env (js ''gh'') (js ''-_91OnBnaA'')
                          example_request 1000 3 (fresh_ctx example_db))))"
    using t by (simp add: fresh_ctx_def list_all_iff)
  from example_db_rule p en d w show ?thesis by simp
qed

section \<open>Properties of the forward executor\<close>

text \<open>
  C4. A forward execution calls \<open>fetch\<close> once, a POST to the target with the body and the
  10 000 ms timeout signal. When the call resolves, the status code and the elapsed time are
  the outcome and the error is null; when it rejects, the status is 0 and the error is the
  message (or the fallback text). The outcome is written to the rows with the hit id when
  there is one, and the database is left as it was when there is none.
\<close>

theorem executeForward_outcome:
  "snd (executeForward fetch elapsed db hitId u b hs)
     = [\<lparr>fetch_url = u, fetch_method = js ''POST'', fetch_headers = forward_headers hs,
         fetch_body = b, signal_timeout = 10000\<rparr>]
   \<and> (hitId = None \<longrightarrow> fst (executeForward fetch elapsed db hitId u b hs) = db)
   \<and> (\<forall>i code. hitId = Some i
         \<and> fetch \<lparr>fetch_url = u, fetch_method = js ''POST'', fetch_headers = forward_headers hs,
                   fetch_body = b, signal_timeout = 10000\<rparr> = Resolved code
       \<longrightarrow> fst (executeForward fetch elapsed db hitId u b hs)
           = db\<lparr>webhookHits :=
                  map (\<lambda>h. if hit_id h = i
                            then h\<lparr>forward_status := Some code, forward_ms := Some elapsed,
                                   forward_error := None\<rparr>
                            else h) (webhookHits db)\<rparr>)
   \<and> (\<forall>i msg. hitId = Some i
         \<and> fetch \<lparr>fetch_url = u, fetch_method = js ''POST'', fetch_headers = forward_headers hs,
                   fetch_body = b, signal_timeout = 10000\<rparr> = Rejected msg
       \<longrightarrow> fst (executeForward fetch elapsed db hitId u b hs)
           = db\<lparr>webhookHits :=
                  map (\<lambda>h. if hit_id h = i
                            then h\<lparr>forward_status := Some 0, forward_ms := Some elapsed,
                                   forward_error :=
                                     Some (case msg of Some m \<Rightarrow> m
                                           | None \<Rightarrow> js ''Unknown fetch error'')\<rparr>
                            else h) (webhookHits db)\<rparr>)"
  by (simp add: executeForward_def Let_def split: prod.splits)

theorem executeForward_outcome_witness:
  "webhookHits (fst (executeForward (\<lambda>rq. Resolved 204) 42
      (empty_db\<lparr>webhookHits := [example_hit 1 1000, example_hit 2 2000]\<rparr>) (Some 2)
      (js ''https://example.com/hook'') (js ''{}'') Map.empty))
     = [example_hit 1 1000,
        (example_hit 2 2000)\<lparr>forward_status := Some 204, forward_ms := Some 42,
                              forward_error := None\<rparr>]
   \<and> webhookHits (fst (executeForward (\<lambda>rq. Rejected None) 42
      (empty_db\<lparr>webhookHits := [example_hit 1 1000, example_hit 2 2000]\<rparr>) (Some 2)
      (js ''https://example.com/hook'') (js ''{}'') Map.empty))
     = [example_hit 1 1000,
        (example_hit 2 2000)\<lparr>forward_status := Some 0, forward_ms := Some 42,
                              forward_error := Some (js ''Unknown fetch error'')\<rparr>]
   \<and> fst (executeForward (\<lambda>rq. Resolved 204) 42
      (empty_db\<lparr>webhookHits := [example_hit 1 1000, example_hit 2 2000]\<rparr>) None
      (js ''https://example.com/hook'') (js ''{}'') Map.empty)
     = empty_db\<lparr>webhookHits := [example_hit 1 1000, example_hit 2 2000]\<rparr>"
  using executeForward_outcome [of "\<lambda>rq. Resolved 204" 42
      "empty_db\<lparr>webhookHits := [example_hit 1 1000, example_hit 2 2000]\<rparr>" "Some 2"
      "js ''https://example.com/hook''" "js ''{}''" Map.empty]
    executeForward_outcome [of "\<lambda>rq. Rejected None" 42
      "empty_db\<lparr>webhookHits := [example_hit 1 1000, example_hit 2 2000]\<rparr>" "Some 2"
      "js ''https://example.com/hook''" "js ''{}''" Map.empty]
    executeForward_outcome [of "\<lambda>rq. Resolved 204" 42
      "empty_db\<lparr>webhookHits := [example_hit 1 1000, example_hit 2 2000]\<rparr>" None
      "js ''https://example.com/hook''" "js ''{}''" Map.empty]
  by (simp add: example_hit_def)

section \<open>Properties of the hits query\<close>

lemma day_2024_01_01: "days_from_civil 2024 1 1 = 19723"
  by (simp add: days_from_civil_def Let_def)

lemma day_2024_01_02: "days_from_civil 2024 1 2 = 19724"
  by (simp add: days_from_civil_def Let_def)

lemma day_2024_01_08: "days_from_civil 2024 1 8 = 19730"
  by (simp add: days_from_civil_def Let_def)

lemma day_2023_12_31: "days_from_civil 2023 12 31 = 19722"
  by (simp add: days_from_civil_def Let_def)

lemma checkAuth_example: "checkAuth authed_request example_env"
  by (simp add: checkAuth_def authed_request_def example_env_def js_def)

lemma select_hits_sound:
  "h \<in> set (select_hits fromISO toISO endpointParam db) \<Longrightarrow>
   h \<in> set (webhookHits db) \<and> fromISO \<le> received_at h \<and> received_at h < toISO"
  by (auto simp: select_hits_def dest: in_set_takeD)

lemma select_hits_newest_first:
  "sorted (map (\<lambda>h. - received_at h) (select_hits fromISO toISO endpointParam db))"
  by (simp add: select_hits_def take_map [symmetric] sorted_wrt_take)

lemma select_hits_capped: "length (select_hits fromISO toISO endpointParam db) \<le> 500"
  by (simp add: select_hits_def)

lemma select_hits_complete:
  assumes "length (filter (\<lambda>h. fromISO \<le> received_at h \<and> received_at h < toISO)
                     (webhookHits db)) \<le> 500"
  shows "set (select_hits fromISO toISO None db)
         = {h \<in> set (webhookHits db). fromISO \<le> received_at h \<and> received_at h < toISO}"
  using assms by (simp add: select_hits_def truthy_def)

text \<open>
  C5. The claim asks that \<open>GET /api/hits\<close> for a day returns the hits of the inclusive
  window from 00:00:00 to 23:59:59.999 of that day in UTC+7. The query compares with
  \<open>lt(received_at, toISO)\<close>: on the request for 2024-01-01, with hits stored half a second
  before the local midnight, at the last millisecond 23:59:59.999 of the day, and half a
  second into the next day, only the first is returned. The hit at the last millisecond
  lies in the window of the claim, and the request for 2024-01-02 does not return it either.
\<close>

theorem api_hits_drops_last_millisecond:
  "in_day_window (days_from_civil 2024 1 1) (Date_UTC 2024 1 1 16 59 59 999)
   \<and> api_hits example_env authed_request (Day (days_from_civil 2024 1 1)) None 0 boundary_db
     = Inr \<lparr>page_from = Date_UTC 2023 12 31 17 0 0 0, page_to = Date_UTC 2024 1 1 16 59 59 999,
            page_count = 1, page_hits = [example_hit 1 (Date_UTC 2024 1 1 16 59 59 500)]\<rparr>
   \<and> api_hits example_env authed_request (Day (days_from_civil 2024 1 2)) None 0 boundary_db
     = Inr \<lparr>page_from = Date_UTC 2024 1 1 17 0 0 0, page_to = Date_UTC 2024 1 2 16 59 59 999,
            page_count = 1, page_hits = [example_hit 3 (Date_UTC 2024 1 1 17 0 0 500)]\<rparr>"
  by (simp add: api_hits_def checkAuth_example in_day_window_def fromISO_of_def toISO_of_def
      GMT7_OFFSET_MS_def Date_UTC_def day_2024_01_01 day_2024_01_02 day_2023_12_31 query_day_def
      select_hits_def boundary_db_def empty_db_def example_hit_def new_hit_def truthy_def Let_def)

section \<open>Properties of the retention sweep\<close>

text \<open>
  C6. At the instant \<open>now\<close>, purge deletes the hits received before \<open>now\<close> minus seven days
  (604 800 000 ms) and keeps the others in their order; rules, aliases and the id counter
  are untouched; the number returned is the number of deleted rows; purging the result
  again at the same instant changes nothing and returns 0. For an authorised request,
  \<open>POST /api/purge\<close> does this and answers \<open>{deleted: n}\<close>.
\<close>

theorem purge_exact:
  "webhookHits (fst (purgeOldHits now db))
     = filter (\<lambda>h. \<not> received_at h < now - 604800000) (webhookHits db)
   \<and> forwardRules (fst (purgeOldHits now db)) = forwardRules db
   \<and> aliases (fst (purgeOldHits now db)) = aliases db
   \<and> last_row_id (fst (purgeOldHits now db)) = last_row_id db
   \<and> snd (purgeOldHits now db)
     = length (filter (\<lambda>h. received_at h < now - 604800000) (webhookHits db))
   \<and> purgeOldHits now (fst (purgeOldHits now db)) = (fst (purgeOldHits now db), 0)
   \<and> (checkAuth req e \<longrightarrow>
        api_purge e req now db
        = (c_json (JObj [(''deleted'', JNum (int (snd (purgeOldHits now db))))]) 200,
           fst (purgeOldHits now db)))"
  by (simp add: purgeOldHits_def api_purge_def Let_def)

theorem purge_exact_witness:
  "webhookHits (fst (purgeOldHits (Date_UTC 2024 1 8 17 0 0 0) boundary_db))
     = [example_hit 3 (Date_UTC 2024 1 1 17 0 0 500)]
   \<and> snd (purgeOldHits (Date_UTC 2024 1 8 17 0 0 0) boundary_db) = 2
   \<and> snd (purgeOldHits (Date_UTC 2024 1 8 17 0 0 0)
            (fst (purgeOldHits (Date_UTC 2024 1 8 17 0 0 0) boundary_db))) = 0
   \<and> checkAuth authed_request example_env
   \<and> fst (api_purge example_env authed_request (Date_UTC 2024 1 8 17 0 0 0) boundary_db)
     = c_json (JObj [(''deleted'', JNum 2)]) 200"
proof -
  note t = purge_exact [of "Date_UTC 2024 1 8 17 0 0 0" boundary_db authed_request example_env]
  have w: "webhookHits (fst (purgeOldHits (Date_UTC 2024 1 8 17 0 0 0) boundary_db))
        = [example_hit 3 (Date_UTC 2024 1 1 17 0 0 500)]"
    and n: "snd (purgeOldHits (Date_UTC 2024 1 8 17 0 0 0) boundary_db) = 2"
    using t
    by (simp_all add: boundary_db_def empty_db_def example_hit_def new_hit_def Date_UTC_def
        day_2024_01_01 day_2024_01_08)
  have z: "snd (purgeOldHits (Date_UTC 2024 1 8 17 0 0 0)
            (fst (purgeOldHits (Date_UTC 2024 1 8 17 0 0 0) boundary_db))) = 0"
    using t by simp
  have a: "fst (api_purge example_env authed_request (Date_UTC 2024 1 8 17 0 0 0) boundary_db)
        = c_json (JObj [(''deleted'', JNum 2)]) 200"
    using t checkAuth_example n by simp
  from w n z checkAuth_example a show ?thesis by (intro conjI)
qed

section \<open>Properties of the stored body\<close>







lemma well_formed_plain:
  "\<not> is_lead_surrogate c \<Longrightarrow> \<not> is_trail_surrogate c \<Longrightarrow>
   well_formed_utf16 (c # cs) = well_formed_utf16 cs"
  by (cases cs) simp_all


lemma well_formed_after_letters:
  "well_formed_utf16 (replicate n 0x61 @ cs) = well_formed_utf16 cs"
  by (induction n)
    (simp_all add: well_formed_plain is_lead_surrogate_def is_trail_surrogate_def)

lemma split_pair_body_well_formed: "well_formed_utf16 split_pair_body"
  by (simp add: split_pair_body_def well_formed_after_letters is_lead_surrogate_def
      is_trail_surrogate_def)

lemma split_pair_slice_not_well_formed: "\<not> well_formed_utf16 (take 4096 split_pair_body)"
  by (simp add: split_pair_body_def well_formed_after_letters is_lead_surrogate_def)



section \<open>Properties of forwarding and of the session check\<close>



text \<open>
  C9. Without a configured \<open>API_TOKEN\<close> (undefined or empty), \<open>checkAuth\<close> is true for
  every request, and the three webhook handlers accept every token and answer 200.
\<close>

theorem fail_open:
  assumes "API_TOKEN e = None \<or> API_TOKEN e = Some []"
  shows "checkAuth rq e
     \<and> status (fst (post_w hmac e ident token req now elapsed c)) = 200
     \<and> status (fst (post_w_github hmac summarize e ident token req now elapsed c)) = 200
     \<and> status (fst (post_w_suffix hmac e ident token sfx req now elapsed c)) = 200"
  using assms
  by (auto simp: checkAuth_def post_w_def post_w_github_def post_w_suffix_def token_rejected_def
      c_json_def Let_def split: prod.splits option.splits)

theorem fail_open_witness:
  "(API_TOKEN open_env = None \<or> API_TOKEN open_env = Some [])
   \<and> checkAuth example_request open_env
   \<and> status (fst (post_w example_hmac open_env (js ''gh'') (js ''anything'') example_request
                    1000 3 (fresh_ctx empty_db))) = 200"
proof -
  have h: "API_TOKEN open_env = None \<or> API_TOKEN open_env = Some []"
    by (simp add: open_env_def)
  from h fail_open [OF h, of example_request example_hmac "js ''gh''" "js ''anything''"
      example_request 1000 3 "fresh_ctx empty_db"]
  show ?thesis by simp
qed

lemma upsert_existing:
  assumes "forwardRules db ep = Some old"
  shows "forwardRules (upsert_forward_rule db ep fwd en pe now) ep
         = Some \<lparr>forward_url = fwd, enabled = en, persist = pe,
                 created_at = created_at old, updated_at = now\<rparr>"
  using assms by (simp add: upsert_forward_rule_def)

text \<open>
  C10. Upserting a rule for an endpoint that already has one, through the PUT route or the
  MCP tool, sets \<open>enabled\<close> and \<open>persist\<close> to the value in the body, or to true when the
  body leaves the field out, whatever was stored; \<open>forward_url\<close> and \<open>updated_at\<close> are
  replaced, and \<open>created_at\<close> is kept.
\<close>

theorem upsert_defaults_flags:
  assumes "forwardRules db ep = Some old"
    and "checkAuth req e"
    and "body_forward_url b = Some fwd" and "fwd \<noteq> []" and "url_ok fwd"
  shows
    "forwardRules (snd (put_forward_rule url_ok e req ep b now db)) ep
       = Some \<lparr>forward_url = fwd,
               enabled = (case body_enabled b of None \<Rightarrow> True | Some v \<Rightarrow> v),
               persist = (case body_persist b of None \<Rightarrow> True | Some v \<Rightarrow> v),
               created_at = created_at old, updated_at = now\<rparr>
     \<and> forwardRules (snd (set_forward_rule url_ok ep b now db)) ep
       = Some \<lparr>forward_url = fwd,
               enabled = (case body_enabled b of None \<Rightarrow> True | Some v \<Rightarrow> v),
               persist = (case body_persist b of None \<Rightarrow> True | Some v \<Rightarrow> v),
               created_at = created_at old, updated_at = now\<rparr>"
  using assms
  by (simp add: put_forward_rule_def set_forward_rule_def upsert_existing nullish_def)

theorem upsert_defaults_flags_witness:
  "forwardRules example_db (js ''gh'') = Some example_rule
   \<and> persist example_rule = False
   \<and> checkAuth authed_request example_env
   \<and> forwardRules (snd (put_forward_rule (\<lambda>u. True) example_env authed_request (js ''gh'')
         \<lparr>body_forward_url = Some (js ''https://example.org/new''), body_enabled = None,
          body_persist = None\<rparr> 99 example_db)) (js ''gh'')
     = Some \<lparr>forward_url = js ''https://example.org/new'', enabled = True, persist = True,
             created_at = 5, updated_at = 99\<rparr>
   \<and> forwardRules (snd (set_forward_rule (\<lambda>u. True) (js ''gh'')
         \<lparr>body_forward_url = Some (js ''https://example.org/new''), body_enabled = None,
          body_persist = None\<rparr> 99 example_db)) (js ''gh'')
     = Some \<lparr>forward_url = js ''https://example.org/new'', enabled = True, persist = True,
             created_at = 5, updated_at = 99\<rparr>"
proof -
  have r: "forwardRules example_db (js ''gh'') = Some example_rule"
    by (simp add: example_db_def)
  have p: "persist example_rule = False" and ca: "created_at example_rule = 5"
    by (simp_all add: example_rule_def)
  have f: "body_forward_url \<lparr>body_forward_url = Some (js ''https://example.org/new''),
             body_enabled = None, body_persist = None\<rparr> = Some (js ''https://example.org/new'')"
    by simp
  have ne: "js ''https://example.org/new'' \<noteq> []"
    by (simp add: js_def)
  have ok: "(\<lambda>u::jsstring. True) (js ''https://example.org/new'')"
    by simp
  note t = upsert_defaults_flags [of example_db "js ''gh''" example_rule authed_request
      example_env _ _ "\<lambda>u. True", OF r checkAuth_example f ne ok, of 99]
  from r p checkAuth_example t ca show ?thesis
    by simp
qed

end
